theory Spec2Isabelle
  imports Main "HOL-Library.AList"
begin

section \<open>JavaScript values, objects and React elements\<close>

text \<open>
  The component of \<^verbatim>\<open>packages/popover2/src/breadcrumbs2.tsx\<close> is a pure render function
  over JavaScript objects. Breadcrumb descriptors are objects that the source compares by
  reference (\<^verbatim>\<open>===\<close>), so a descriptor is an address into a store of objects; an object
  is a list of properties looked up by name.
\<close>

type_synonym addr = nat

datatype Boundary = START | END

text \<open>Function values: the two callbacks of the component itself, and opaque handlers
  (an \<^verbatim>\<open>onClick\<close>, say) that the component only passes around.\<close>

datatype fn = RenderOverflow | RenderBreadcrumbWrapper | Handler nat

datatype jsval =
    VUndefined
  | VNull
  | VBool bool
  | VNum int
  | VStr string
  | VBoundary Boundary
  | VFun fn
  | VRef addr
  | VArray "jsval list"
  | VElement element
and element =
    Element (etype: string) (eprops: "(string \<times> jsval) list") (echildren: "element list")

type_synonym obj = "(string \<times> jsval) list"

type_synonym heap = "addr \<Rightarrow> obj"

text \<open>\<^verbatim>\<open>o.k\<close>: reading a property that the object does not have gives \<^verbatim>\<open>undefined\<close>.\<close>

definition getProp :: "obj \<Rightarrow> string \<Rightarrow> jsval" where
  "getProp ob k = (case map_of ob k of None \<Rightarrow> VUndefined | Some v \<Rightarrow> v)"

text \<open>\<^verbatim>\<open>v != null\<close> holds for every value but \<^verbatim>\<open>null\<close> and \<^verbatim>\<open>undefined\<close>.\<close>

definition notNullish :: "jsval \<Rightarrow> bool" where
  "notNullish v = (v \<noteq> VNull \<and> v \<noteq> VUndefined)"

text \<open>
  The attributes of a JSX element are evaluated from left to right into its props object:
  \<^verbatim>\<open>k={v}\<close> sets one property, \<^verbatim>\<open>{...s}\<close> copies every property of \<^verbatim>\<open>s\<close>; in both cases
  a property set earlier is overwritten.
\<close>

datatype attr = Attr string jsval | Spread obj

fun jsxAttr :: "obj \<Rightarrow> attr \<Rightarrow> obj" where
  "jsxAttr ob (Attr k v) = AList.update k v ob"
| "jsxAttr ob (Spread s) = AList.merge ob s"

definition jsx :: "attr list \<Rightarrow> obj" where
  "jsx as = foldl jsxAttr [] as"

text \<open>\<^verbatim>\<open>xs.map(f)\<close> calls \<^verbatim>\<open>f(x, index)\<close> on every element with its position in \<^verbatim>\<open>xs\<close>.\<close>

definition mapIndexed :: "('a \<Rightarrow> nat \<Rightarrow> 'b) \<Rightarrow> 'a list \<Rightarrow> 'b list" where
  "mapIndexed f xs = map (\<lambda>(i, x). f x i) (enumerate 0 xs)"

subsection \<open>Imported helpers\<close>

text \<open>
  \<^verbatim>\<open>classNames\<close> (package \<^verbatim>\<open>classnames\<close>) on the arguments the declared types of
  \<^verbatim>\<open>className\<close> admit, a string or \<^verbatim>\<open>undefined\<close>: the non-empty strings, joined by spaces.
\<close>

fun joinSpace :: "string list \<Rightarrow> string" where
  "joinSpace [] = []"
| "joinSpace [s] = s"
| "joinSpace (s # t) = s @ '' '' @ joinSpace t"

definition classNames :: "string option list \<Rightarrow> string" where
  "classNames args = joinSpace (filter (\<lambda>s. s \<noteq> []) (List.map_filter id args))"

definition asClass :: "jsval \<Rightarrow> string option" where
  "asClass v = (case v of VStr s \<Rightarrow> Some s | _ \<Rightarrow> None)"

text \<open>
  Modelled from the spec: the class names \<^verbatim>\<open>Classes.BREADCRUMBS\<close> and
  \<^verbatim>\<open>Classes.BREADCRUMBS_COLLAPSED\<close> are declared in the core package, not in this one.
  The specification calls the first "a fixed base class"; no statement below
  depends on the text of either.
\<close>

definition BREADCRUMBS :: string where
  "BREADCRUMBS = ''bp4-breadcrumbs''"

definition BREADCRUMBS_COLLAPSED :: string where
  "BREADCRUMBS_COLLAPSED = ''bp4-breadcrumbs-collapsed''"

text \<open>
  Modelled from the spec: \<^verbatim>\<open>removeNonHTMLProps\<close> is imported from the core package and is
  not defined in this one. By the specification the attributes of a descriptor that
  are not the library's own display props are passed through to the underlying element.
  The names of the library's own props are a table of the core package as well; it is the
  parameter \<open>invalidProps\<close>, and the function drops exactly the properties named there.
\<close>

definition removeNonHTMLProps :: "string list \<Rightarrow> obj \<Rightarrow> obj" where
  "removeNonHTMLProps invalidProps props = filter (\<lambda>(k, v). k \<notin> set invalidProps) props"

section \<open>The component\<close>

text \<open>
  \<^verbatim>\<open>Breadcrumbs2Props\<close>. An optional prop that is absent is \<open>None\<close>. The two renderers are
  functions of the caller from a descriptor to an element.
\<close>

record Breadcrumbs2Props =
  className :: "string option"
  breadcrumbRenderer :: "(addr \<Rightarrow> element) option"
  collapseFrom :: "Boundary option"
  currentBreadcrumbRenderer :: "(addr \<Rightarrow> element) option"
  items :: "addr list"
  minVisibleItems :: "nat option"
  overflowListProps :: "obj option"
  popoverProps :: "obj option"

text \<open>\<^verbatim>\<open>defaultProps = { collapseFrom: Boundary.START }\<close>: React fills in a prop that the
  caller left undefined before any method of the component reads \<^verbatim>\<open>this.props\<close>.\<close>

definition defaultProps :: "Breadcrumbs2Props \<Rightarrow> Breadcrumbs2Props" where
  "defaultProps this =
     this\<lparr>collapseFrom := Some (case collapseFrom this of None \<Rightarrow> START | Some b \<Rightarrow> b)\<rparr>"

text \<open>The type of \<^verbatim>\<open>popoverProps\<close> omits the six props of the popover that the component
  fixes itself.\<close>

definition popoverPropsOmitted :: "string list" where
  "popoverPropsOmitted =
     [''content'', ''defaultIsOpen'', ''disabled'', ''fill'', ''renderTarget'', ''targetTagName'']"

definition popoverPropsTyped :: "Breadcrumbs2Props \<Rightarrow> bool" where
  "popoverPropsTyped this =
     (case popoverProps this of
        None \<Rightarrow> True
      | Some pp \<Rightarrow> list_all (\<lambda>k. map_of pp k = None) popoverPropsOmitted)"

definition optBoundary :: "Boundary option \<Rightarrow> jsval" where
  "optBoundary b = (case b of None \<Rightarrow> VUndefined | Some c \<Rightarrow> VBoundary c)"

definition optNum :: "nat option \<Rightarrow> jsval" where
  "optNum n = (case n of None \<Rightarrow> VUndefined | Some m \<Rightarrow> VNum (int m))"

definition optObj :: "obj option \<Rightarrow> obj" where
  "optObj ob = (case ob of None \<Rightarrow> [] | Some p \<Rightarrow> p)"

text \<open>\<^verbatim>\<open>render()\<close>\<close>

definition render :: "Breadcrumbs2Props \<Rightarrow> element" where
  "render this =
     (let olp = optObj (overflowListProps this) in
      Element ''OverflowList''
        (jsx [Attr ''collapseFrom'' (optBoundary (collapseFrom this)),
              Attr ''minVisibleItems'' (optNum (minVisibleItems this)),
              Attr ''tagName'' (VStr ''ul''),
              Spread olp,
              Attr ''className''
                (VStr (classNames [Some BREADCRUMBS, asClass (getProp olp ''className''),
                                   className this])),
              Attr ''items'' (VArray (map VRef (items this))),
              Attr ''overflowRenderer'' (VFun RenderOverflow),
              Attr ''visibleItemRenderer'' (VFun RenderBreadcrumbWrapper)])
        [])"

text \<open>\<^verbatim>\<open>props.href != null || props.onClick != null\<close>\<close>

definition isClickable :: "obj \<Rightarrow> bool" where
  "isClickable props =
     (notNullish (getProp props ''href'') \<or> notNullish (getProp props ''onClick''))"

text \<open>\<^verbatim>\<open>renderOverflowBreadcrumb(props, index)\<close>\<close>

definition renderOverflowBreadcrumb :: "heap \<Rightarrow> string list \<Rightarrow> addr \<Rightarrow> nat \<Rightarrow> element" where
  "renderOverflowBreadcrumb h invalidProps p index =
     (let props = h p;
          clickable = isClickable props;
          htmlProps = removeNonHTMLProps invalidProps props in
      Element ''MenuItem2''
        (jsx [Attr ''disabled'' (VBool (\<not> clickable)),
              Spread htmlProps,
              Attr ''text'' (getProp props ''text''),
              Attr ''key'' (VNum (int index))])
        [])"

text \<open>\<^verbatim>\<open>renderOverflow(items)\<close>\<close>

definition renderOverflow :: "heap \<Rightarrow> string list \<Rightarrow> Breadcrumbs2Props \<Rightarrow> addr list \<Rightarrow> element" where
  "renderOverflow h invalidProps this its =
     (let orderedItems = (if collapseFrom this = Some START then rev its else its) in
      Element ''li'' []
        [Element ''Popover2''
           (jsx [Attr ''placement''
                   (VStr (if collapseFrom this = Some END then ''bottom-end'' else ''bottom-start'')),
                 Attr ''disabled'' (VBool (length orderedItems = 0)),
                 Attr ''content''
                   (VElement (Element ''Menu'' []
                      (mapIndexed (renderOverflowBreadcrumb h invalidProps) orderedItems))),
                 Spread (optObj (popoverProps this))])
           [Element ''span'' (jsx [Attr ''className'' (VStr BREADCRUMBS_COLLAPSED)]) []]])"

text \<open>The invocations of the caller's renderers, in the order in which they happen.\<close>

datatype call = BreadcrumbRendererCall addr | CurrentBreadcrumbRendererCall addr

text \<open>\<^verbatim>\<open>renderBreadcrumb(props, isCurrent)\<close>, with the invocations it makes. The current
  renderer is looked at only when \<open>isCur\<close> holds; a renderer that is \<^verbatim>\<open>null\<close> or
  \<^verbatim>\<open>undefined\<close> is \<open>None\<close>, and then the next branch is taken.\<close>

definition renderBreadcrumb ::
    "heap \<Rightarrow> Breadcrumbs2Props \<Rightarrow> addr \<Rightarrow> bool \<Rightarrow> call list \<times> element" where
  "renderBreadcrumb h this p isCur =
     (case (if isCur then currentBreadcrumbRenderer this else None) of
        Some cr \<Rightarrow> ([CurrentBreadcrumbRendererCall p], cr p)
      | None \<Rightarrow>
          (case breadcrumbRenderer this of
             Some br \<Rightarrow> ([BreadcrumbRendererCall p], br p)
           | None \<Rightarrow>
               ([], Element ''Breadcrumb''
                      (jsx [Attr ''current'' (VBool isCur), Spread (h p)]) [])))"

text \<open>\<^verbatim>\<open>this.props.items[this.props.items.length - 1] === props\<close>: reading past an empty
  array gives \<^verbatim>\<open>undefined\<close>, which is no descriptor.\<close>

definition isCurrent :: "Breadcrumbs2Props \<Rightarrow> addr \<Rightarrow> bool" where
  "isCurrent this p = (case items this of [] \<Rightarrow> False | _ # _ \<Rightarrow> last (items this) = p)"

text \<open>\<^verbatim>\<open>renderBreadcrumbWrapper(props, index)\<close>\<close>

definition renderBreadcrumbWrapper ::
    "heap \<Rightarrow> Breadcrumbs2Props \<Rightarrow> addr \<Rightarrow> nat \<Rightarrow> call list \<times> element" where
  "renderBreadcrumbWrapper h this p index =
     (let (calls, el) = renderBreadcrumb h this p (isCurrent this p) in
      (calls, Element ''li'' (jsx [Attr ''key'' (VNum (int index))]) [el]))"

section \<open>The overflow list\<close>

text \<open>
  Modelled from the spec: the overflow list (\<^verbatim>\<open>OverflowList\<close>) is imported from the core
  package and is not defined in this one. By the specification it receives the items and a minimum
  visible count and gives back the visible and the overflowed subsequence; the collapse
  direction says which end of the sequence goes into the overflow menu first, and the
  minimum visible count is a floor on the number of visible items whatever the available
  space. It reads its configuration from the props of the element that \<^verbatim>\<open>render()\<close>
  returns, a missing collapse direction being \<open>START\<close> and a missing minimum being 0.
  How many items the container has room for is measured in the browser: it is the
  parameter \<open>fit\<close>.
\<close>

definition passedCollapseFrom :: "obj \<Rightarrow> Boundary" where
  "passedCollapseFrom ps = (case getProp ps ''collapseFrom'' of VBoundary b \<Rightarrow> b | _ \<Rightarrow> START)"

definition passedMinVisibleItems :: "obj \<Rightarrow> nat" where
  "passedMinVisibleItems ps = (case getProp ps ''minVisibleItems'' of VNum n \<Rightarrow> nat n | _ \<Rightarrow> 0)"

definition partitionItems :: "Boundary \<Rightarrow> nat \<Rightarrow> 'a list \<Rightarrow> 'a list \<times> 'a list" where
  "partitionItems cf v its =
     (case cf of
        START \<Rightarrow> (drop (length its - v) its, take (length its - v) its)
      | END \<Rightarrow> (take v its, drop v its))"

record pass =
  visibleItems :: "addr list"
  overflowItems :: "addr list"
  calls :: "call list"
  visibleEls :: "element list"
  overflowEl :: "element option"

text \<open>
  Modelled from the spec: one render pass of the overflow list over the props that
  \<^verbatim>\<open>render()\<close> hands to it. Every visible descriptor goes through the visible-item
  renderer with its position among the visible ones; the overflow renderer is called when
  at least one item is overflowed. \<open>this\<close> is \<^verbatim>\<open>this.props\<close>, default props filled in.
\<close>

definition renderPass :: "heap \<Rightarrow> string list \<Rightarrow> Breadcrumbs2Props \<Rightarrow> nat \<Rightarrow> pass" where
  "renderPass h invalidProps this fit =
     (let ps = eprops (render this);
          (vis, ov) = partitionItems (passedCollapseFrom ps)
                        (max fit (passedMinVisibleItems ps)) (items this);
          rs = mapIndexed (renderBreadcrumbWrapper h this) vis in
      \<lparr>visibleItems = vis,
       overflowItems = ov,
       calls = concat (map fst rs),
       visibleEls = map snd rs,
       overflowEl = (if ov = [] then None else Some (renderOverflow h invalidProps this ov))\<rparr>)"

text \<open>The arguments of the invocations of either renderer in a log.\<close>

fun breadcrumbRendererArg :: "call \<Rightarrow> addr option" where
  "breadcrumbRendererArg (BreadcrumbRendererCall p) = Some p"
| "breadcrumbRendererArg (CurrentBreadcrumbRendererCall p) = None"

fun currentBreadcrumbRendererArg :: "call \<Rightarrow> addr option" where
  "currentBreadcrumbRendererArg (BreadcrumbRendererCall p) = None"
| "currentBreadcrumbRendererArg (CurrentBreadcrumbRendererCall p) = Some p"

definition breadcrumbRendererArgs :: "call list \<Rightarrow> addr list" where
  "breadcrumbRendererArgs cs = List.map_filter breadcrumbRendererArg cs"

definition currentBreadcrumbRendererArgs :: "call list \<Rightarrow> addr list" where
  "currentBreadcrumbRendererArgs cs = List.map_filter currentBreadcrumbRendererArg cs"

text \<open>Reading the rendered output: the popover inside the overflow entry, the entries of
  the menu that is its content, and the breadcrumb inside a wrapper.\<close>

definition popoverOf :: "element \<Rightarrow> element" where
  "popoverOf li = (case echildren li of [] \<Rightarrow> li | pop # _ \<Rightarrow> pop)"

definition menuEntries :: "element \<Rightarrow> element list" where
  "menuEntries li =
     (case getProp (eprops (popoverOf li)) ''content'' of
        VElement menu \<Rightarrow> echildren menu
      | _ \<Rightarrow> [])"

definition entryText :: "element \<Rightarrow> jsval" where
  "entryText e = getProp (eprops e) ''text''"

definition overflowMenuTexts :: "pass \<Rightarrow> jsval list" where
  "overflowMenuTexts ps =
     (case overflowEl ps of None \<Rightarrow> [] | Some li \<Rightarrow> map entryText (menuEntries li))"

definition breadcrumbOf :: "element \<Rightarrow> element" where
  "breadcrumbOf li = (case echildren li of [] \<Rightarrow> li | b # _ \<Rightarrow> b)"

section \<open>Example inputs\<close>

text \<open>The three descriptors of the test suite, \<^verbatim>\<open>[{ text: "1" }, { text: "2" }, { text: "3" }]\<close>,
  at the addresses 0, 1 and 2; further descriptors with a link target, a click handler,
  and props of their own that the component also computes.\<close>

definition ITEMS_heap :: heap where
  "ITEMS_heap a =
     (if a = 0 then [(''text'', VStr ''1'')]
      else if a = 1 then [(''text'', VStr ''2'')]
      else if a = 2 then [(''text'', VStr ''3'')]
      else if a = 3 then [(''text'', VStr ''4''), (''href'', VStr ''/four''), (''icon'', VStr ''folder'')]
      else if a = 4 then [(''text'', VStr ''5''), (''onClick'', VFun (Handler 0)), (''target'', VStr ''_blank'')]
      else if a = 5 then [(''text'', VStr ''6''), (''current'', VBool True)]
      else if a = 6 then [(''text'', VStr ''7''), (''href'', VStr ''/seven''), (''disabled'', VBool True)]
      else [])"

definition ITEMS :: "addr list" where
  "ITEMS = [0, 1, 2]"

text \<open>A sample of the table of prop names that \<^verbatim>\<open>removeNonHTMLProps\<close> drops.\<close>

definition sampleInvalidProps :: "string list" where
  "sampleInvalidProps = [''current'', ''icon'', ''intent'', ''text'']"

text \<open>\<^verbatim>\<open><Breadcrumbs2 items={ITEMS} />\<close>, as React hands it to the component.\<close>

definition plainProps :: Breadcrumbs2Props where
  "plainProps =
     defaultProps
       \<lparr>className = None, breadcrumbRenderer = None, collapseFrom = None,
        currentBreadcrumbRenderer = None, items = ITEMS, minVisibleItems = None,
        overflowListProps = None, popoverProps = None\<rparr>"

text \<open>Two renderers of a caller, told apart by the element type they produce.\<close>

definition sampleRenderer :: "addr \<Rightarrow> element" where
  "sampleRenderer p = Element ''a'' [(''item'', VRef p)] []"

definition sampleCurrentRenderer :: "addr \<Rightarrow> element" where
  "sampleCurrentRenderer p = Element ''strong'' [(''item'', VRef p)] []"

text \<open>The props of the tests that keep every item visible
  (\<^verbatim>\<open>minVisibleItems={ITEMS.length}\<close>), without a renderer, with both and with the generic one
  only; the props of the tests that open the popover (\<^verbatim>\<open>popoverProps={{ isOpen: true,
  usePortal: false }}\<close>); and the props of the test that passes props through to the overflow
  list.\<close>

definition allVisibleProps :: Breadcrumbs2Props where
  "allVisibleProps = plainProps\<lparr>minVisibleItems := Some (length ITEMS)\<rparr>"

definition bothRenderersProps :: Breadcrumbs2Props where
  "bothRenderersProps =
     allVisibleProps\<lparr>breadcrumbRenderer := Some sampleRenderer,
                      currentBreadcrumbRenderer := Some sampleCurrentRenderer\<rparr>"

definition onlyRendererProps :: Breadcrumbs2Props where
  "onlyRendererProps = allVisibleProps\<lparr>breadcrumbRenderer := Some sampleRenderer\<rparr>"

definition openPopoverProps :: Breadcrumbs2Props where
  "openPopoverProps =
     plainProps\<lparr>popoverProps := Some [(''isOpen'', VBool True), (''usePortal'', VBool False)]\<rparr>"

definition passThroughProps :: Breadcrumbs2Props where
  "passThroughProps =
     \<lparr>className = Some ''breadcrumbs-class'', breadcrumbRenderer = None,
      collapseFrom = Some END, currentBreadcrumbRenderer = None, items = [],
      minVisibleItems = Some 7,
      overflowListProps =
        Some [(''className'', VStr ''overflow-list-class''), (''tagName'', VStr ''article'')],
      popoverProps = None\<rparr>"

section \<open>Basic facts\<close>

subsection \<open>Props objects\<close>

lemma map_of_jsxAttr_Attr: "map_of (jsxAttr ob (Attr k v)) = (map_of ob)(k \<mapsto> v)"
  by (simp add: update_conv')

lemma map_of_jsxAttr_Spread: "map_of (jsxAttr ob (Spread s)) = map_of ob ++ map_of s"
  by (simp add: merge_conv')

lemma getProp_default_current:
  "getProp (jsx [Attr ''current'' (VBool c), Spread ob]) ''current'' =
     (case map_of ob ''current'' of None \<Rightarrow> VBool c | Some v \<Rightarrow> v)"
  by (simp add: getProp_def jsx_def map_of_jsxAttr_Spread map_of_jsxAttr_Attr map_add_def
      del: jsxAttr.simps split: option.splits)

lemma map_of_removeNonHTMLProps:
  "map_of (removeNonHTMLProps tbl ob) k = (if k \<in> set tbl then None else map_of ob k)"
  by (induction ob) (auto simp add: removeNonHTMLProps_def)

lemma map_of_entry:
  "map_of (eprops (renderOverflowBreadcrumb h tbl p index)) =
     ((([''disabled'' \<mapsto> VBool (\<not> isClickable (h p))]
          ++ map_of (removeNonHTMLProps tbl (h p)))
        (''text'' \<mapsto> getProp (h p) ''text''))
        (''key'' \<mapsto> VNum (int index)))"
  by (simp add: renderOverflowBreadcrumb_def jsx_def map_of_jsxAttr_Spread map_of_jsxAttr_Attr
      Let_def del: jsxAttr.simps)

lemma map_of_popover:
  "map_of (eprops (popoverOf (renderOverflow h tbl this its))) =
     [''placement'' \<mapsto> VStr (if collapseFrom this = Some END then ''bottom-end'' else ''bottom-start''),
      ''disabled'' \<mapsto> VBool (length (if collapseFrom this = Some START then rev its else its) = 0),
      ''content'' \<mapsto> VElement (Element ''Menu'' []
          (mapIndexed (renderOverflowBreadcrumb h tbl)
             (if collapseFrom this = Some START then rev its else its)))]
     ++ map_of (optObj (popoverProps this))"
  by (simp add: renderOverflow_def popoverOf_def jsx_def map_of_jsxAttr_Spread map_of_jsxAttr_Attr
      Let_def del: jsxAttr.simps)

lemma map_of_render:
  "map_of (eprops (render this)) =
     (([''collapseFrom'' \<mapsto> optBoundary (collapseFrom this),
        ''minVisibleItems'' \<mapsto> optNum (minVisibleItems this),
        ''tagName'' \<mapsto> VStr ''ul'']
       ++ map_of (optObj (overflowListProps this)))
      (''className'' \<mapsto> VStr (classNames [Some BREADCRUMBS,
            asClass (getProp (optObj (overflowListProps this)) ''className''), className this]),
       ''items'' \<mapsto> VArray (map VRef (items this)),
       ''overflowRenderer'' \<mapsto> VFun RenderOverflow,
       ''visibleItemRenderer'' \<mapsto> VFun RenderBreadcrumbWrapper))"
  by (simp add: render_def jsx_def map_of_jsxAttr_Spread map_of_jsxAttr_Attr Let_def
      del: jsxAttr.simps)

lemma popoverPropsTyped_omitted:
  assumes "popoverPropsTyped this" and "k \<in> set popoverPropsOmitted"
  shows "map_of (optObj (popoverProps this)) k = None"
  using assms
  by (cases "popoverProps this") (simp_all add: popoverPropsTyped_def optObj_def list_all_iff)

subsection \<open>Mapping with positions\<close>

lemma map_mapIndexed_const:
  assumes "\<And>x i. g (f x i) = k x"
  shows "map g (mapIndexed f xs) = map k xs"
proof -
  have "map g (mapIndexed f xs) = map (k \<circ> snd) (enumerate 0 xs)"
    by (simp add: mapIndexed_def assms case_prod_beta comp_def)
  also have "\<dots> = map k (map snd (enumerate 0 xs))"
    by (simp only: map_map)
  finally show ?thesis
    by (simp only: map_snd_enumerate)
qed

lemma map_all_False:
  "(\<And>x. x \<in> set xs \<Longrightarrow> \<not> f x) \<Longrightarrow> map f xs = replicate (length xs) False"
  by (induction xs) simp_all

lemma map_if_notin:
  "x \<notin> set xs \<Longrightarrow> map (\<lambda>p. if p = x then f p else g p) xs = map g xs"
  by (induction xs) auto

subsection \<open>The overflow path\<close>

lemma menuEntries_renderOverflow:
  assumes "popoverPropsTyped this"
  shows "menuEntries (renderOverflow h tbl this its) =
           mapIndexed (renderOverflowBreadcrumb h tbl)
             (if collapseFrom this = Some START then rev its else its)"
proof -
  have "map_of (optObj (popoverProps this)) ''content'' = None"
    using assms by (rule popoverPropsTyped_omitted) (simp add: popoverPropsOmitted_def)
  then show ?thesis
    by (simp add: menuEntries_def getProp_def map_of_popover map_add_def)
qed

lemma entryText_entry: "entryText (renderOverflowBreadcrumb h tbl p index) = getProp (h p) ''text''"
  by (simp add: entryText_def getProp_def map_of_entry)

lemma renderOverflow_frame:
  "renderOverflow h tbl
     (this\<lparr>breadcrumbRenderer := br, currentBreadcrumbRenderer := cr, items := xs\<rparr>) its =
   renderOverflow h tbl this its"
  by (simp add: renderOverflow_def)

subsection \<open>The visible path\<close>

lemma fst_renderBreadcrumbWrapper:
  "fst (renderBreadcrumbWrapper h this p index) = fst (renderBreadcrumb h this p (isCurrent this p))"
  by (simp add: renderBreadcrumbWrapper_def split_beta)

lemma fst_renderBreadcrumb:
  "fst (renderBreadcrumb h this p c) =
     (if c \<and> currentBreadcrumbRenderer this \<noteq> None then [CurrentBreadcrumbRendererCall p]
      else if breadcrumbRenderer this \<noteq> None then [BreadcrumbRendererCall p]
      else [])"
  by (auto simp add: renderBreadcrumb_def split: option.splits)

lemma current_of_default:
  assumes "breadcrumbRenderer this = None" and "currentBreadcrumbRenderer this = None"
  shows "getProp (eprops (breadcrumbOf (snd (renderBreadcrumbWrapper h this p index)))) ''current'' =
           (case map_of (h p) ''current'' of
              None \<Rightarrow> VBool (isCurrent this p)
            | Some v \<Rightarrow> v)"
  using assms
  by (simp add: renderBreadcrumbWrapper_def renderBreadcrumb_def breadcrumbOf_def
      getProp_default_current split: option.splits)

lemma isCurrent_iff: "isCurrent this p \<longleftrightarrow> items this \<noteq> [] \<and> last (items this) = p"
  by (cases "items this") (simp_all add: isCurrent_def)

lemma map_isCurrent_items:
  assumes "items this \<noteq> []" and "last (items this) \<notin> set (butlast (items this))"
  shows "map (isCurrent this) (items this) = replicate (length (items this) - 1) False @ [True]"
proof -
  have split: "items this = butlast (items this) @ [last (items this)]"
    using assms(1) by simp
  have "map (isCurrent this) (butlast (items this)) = replicate (length (butlast (items this))) False"
  proof (rule map_all_False)
    fix x
    assume "x \<in> set (butlast (items this))"
    with assms(2) show "\<not> isCurrent this x"
      by (auto simp add: isCurrent_iff)
  qed
  moreover have "isCurrent this (last (items this))"
    using assms(1) by (simp add: isCurrent_iff)
  ultimately have "map (isCurrent this) (butlast (items this) @ [last (items this)]) =
      replicate (length (items this) - 1) False @ [True]"
    by simp
  then show ?thesis
    using split by simp
qed

lemma args_of_calls:
  "breadcrumbRendererArgs (map BreadcrumbRendererCall xs) = xs"
  "currentBreadcrumbRendererArgs (map BreadcrumbRendererCall xs) = []"
  "breadcrumbRendererArgs (cs @ ds) = breadcrumbRendererArgs cs @ breadcrumbRendererArgs ds"
  "currentBreadcrumbRendererArgs (cs @ ds) =
     currentBreadcrumbRendererArgs cs @ currentBreadcrumbRendererArgs ds"
  "breadcrumbRendererArgs [CurrentBreadcrumbRendererCall p] = []"
  "currentBreadcrumbRendererArgs [CurrentBreadcrumbRendererCall p] = [p]"
  by (induction xs)
    (simp_all add: breadcrumbRendererArgs_def currentBreadcrumbRendererArgs_def map_filter_def)

subsection \<open>The render pass\<close>

lemma renderPass_sel:
  "visibleItems (renderPass h tbl this fit) =
     fst (partitionItems (passedCollapseFrom (eprops (render this)))
            (max fit (passedMinVisibleItems (eprops (render this)))) (items this))"
  "overflowItems (renderPass h tbl this fit) =
     snd (partitionItems (passedCollapseFrom (eprops (render this)))
            (max fit (passedMinVisibleItems (eprops (render this)))) (items this))"
  "calls (renderPass h tbl this fit) =
     concat (map fst (mapIndexed (renderBreadcrumbWrapper h this)
       (visibleItems (renderPass h tbl this fit))))"
  "visibleEls (renderPass h tbl this fit) =
     map snd (mapIndexed (renderBreadcrumbWrapper h this)
       (visibleItems (renderPass h tbl this fit)))"
  "overflowEl (renderPass h tbl this fit) =
     (if overflowItems (renderPass h tbl this fit) = [] then None
      else Some (renderOverflow h tbl this (overflowItems (renderPass h tbl this fit))))"
  by (simp_all add: renderPass_def Let_def split_beta)

lemma calls_renderPass:
  "calls (renderPass h tbl this fit) =
     concat (map (\<lambda>p. fst (renderBreadcrumb h this p (isCurrent this p)))
       (visibleItems (renderPass h tbl this fit)))"
proof -
  have "map fst (mapIndexed (renderBreadcrumbWrapper h this) xs) =
      map (\<lambda>p. fst (renderBreadcrumb h this p (isCurrent this p))) xs" for xs
    by (rule map_mapIndexed_const) (rule fst_renderBreadcrumbWrapper)
  then show ?thesis
    by (simp add: renderPass_sel(3))
qed

lemma calls_from_visible:
  assumes "c \<in> set (calls (renderPass h tbl this fit))"
  shows "\<exists>p \<in> set (visibleItems (renderPass h tbl this fit)).
           c = BreadcrumbRendererCall p \<or> c = CurrentBreadcrumbRendererCall p"
proof -
  from assms obtain p where p: "p \<in> set (visibleItems (renderPass h tbl this fit))"
    and c: "c \<in> set (fst (renderBreadcrumb h this p (isCurrent this p)))"
    by (auto simp add: calls_renderPass)
  from c have "c = BreadcrumbRendererCall p \<or> c = CurrentBreadcrumbRendererCall p"
    by (auto simp add: fst_renderBreadcrumb split: if_splits)
  with p show ?thesis
    by blast
qed

lemma all_visible:
  assumes "length (items this) \<le> passedMinVisibleItems (eprops (render this))"
  shows "visibleItems (renderPass h tbl this fit) = items this"
    and "overflowItems (renderPass h tbl this fit) = []"
  using assms
  by (simp_all add: renderPass_sel partitionItems_def split: Boundary.splits)

lemma partitionItems_ITEMS:
  "partitionItems START (Suc 0) ITEMS = ([2], [0, 1])"
  "partitionItems END (Suc 0) ITEMS = ([0], [1, 2])"
  by (simp_all add: partitionItems_def ITEMS_def)

lemma passed_plain:
  "passedCollapseFrom (eprops (render plainProps)) = START"
  "passedMinVisibleItems (eprops (render plainProps)) = 0"
  "passedCollapseFrom (eprops (render (plainProps\<lparr>collapseFrom := Some END\<rparr>))) = END"
  "passedMinVisibleItems (eprops (render (plainProps\<lparr>collapseFrom := Some END\<rparr>))) = 0"
  by (simp_all add: passedCollapseFrom_def passedMinVisibleItems_def render_def
      plainProps_def defaultProps_def jsx_def getProp_def optObj_def optBoundary_def optNum_def)

section \<open>The default breadcrumb\<close>

text \<open>
  Claim C1, as amended. When neither \<^verbatim>\<open>breadcrumbRenderer\<close> nor
  \<^verbatim>\<open>currentBreadcrumbRenderer\<close> is supplied, every descriptor is rendered as the default
  \<^verbatim>\<open>Breadcrumb\<close> element whose \<^verbatim>\<open>current\<close> attribute is written before the descriptor is
  spread over it: the \<^verbatim>\<open>current\<close> prop of the rendered element is the descriptor's own
  \<^verbatim>\<open>current\<close> field when it has one, and the computed \<open>isCurrent\<close> flag otherwise. No
  renderer of the caller is invoked.
\<close>

theorem default_breadcrumb_current:
  assumes "breadcrumbRenderer this = None" and "currentBreadcrumbRenderer this = None"
  shows "renderBreadcrumbWrapper h this p index =
           ([], Element ''li'' (jsx [Attr ''key'' (VNum (int index))])
                  [Element ''Breadcrumb''
                     (jsx [Attr ''current'' (VBool (isCurrent this p)), Spread (h p)]) []])
         \<and> getProp (eprops (breadcrumbOf (snd (renderBreadcrumbWrapper h this p index))))
             ''current'' =
           (case map_of (h p) ''current'' of
              None \<Rightarrow> VBool (isCurrent this p)
            | Some v \<Rightarrow> v)"
  using assms
  by (simp add: renderBreadcrumbWrapper_def renderBreadcrumb_def breadcrumbOf_def
      getProp_default_current split: option.splits)

text \<open>The last of the three test descriptors is rendered current and the first is not;
  a descriptor that says \<^verbatim>\<open>current: true\<close> itself is rendered current in first position.\<close>

theorem default_breadcrumb_current_witness:
  "breadcrumbRenderer plainProps = None \<and> currentBreadcrumbRenderer plainProps = None
   \<and> getProp (eprops (breadcrumbOf (snd (renderBreadcrumbWrapper ITEMS_heap plainProps 2 2))))
       ''current'' = VBool True
   \<and> getProp (eprops (breadcrumbOf (snd (renderBreadcrumbWrapper ITEMS_heap plainProps 0 0))))
       ''current'' = VBool False
   \<and> getProp (eprops (breadcrumbOf
         (snd (renderBreadcrumbWrapper ITEMS_heap (plainProps\<lparr>items := [5, 0]\<rparr>) 5 0))))
       ''current'' = VBool True"
  using default_breadcrumb_current [of plainProps ITEMS_heap 2 2]
    default_breadcrumb_current [of plainProps ITEMS_heap 0 0]
    default_breadcrumb_current [of "plainProps\<lparr>items := [5, 0]\<rparr>" ITEMS_heap 5 0]
  by (simp add: plainProps_def defaultProps_def ITEMS_heap_def ITEMS_def isCurrent_def breadcrumbOf_def
      getProp_def jsx_def)

text \<open>
  Claim C1 as stated fails: with the items \<^verbatim>\<open>[{ text: "6", current: true }, { text: "1" }]\<close>
  and no renderer, the first descriptor is not the last one, so the computed flag is false,
  and yet the default breadcrumb rendered for it has \<^verbatim>\<open>current\<close> true.
\<close>

theorem default_breadcrumb_current_counterexample:
  "breadcrumbRenderer (plainProps\<lparr>items := [5, 0]\<rparr>) = None
   \<and> currentBreadcrumbRenderer (plainProps\<lparr>items := [5, 0]\<rparr>) = None
   \<and> isCurrent (plainProps\<lparr>items := [5, 0]\<rparr>) 5 = False
   \<and> getProp (eprops (breadcrumbOf
         (snd (renderBreadcrumbWrapper ITEMS_heap (plainProps\<lparr>items := [5, 0]\<rparr>) 5 0))))
       ''current'' = VBool True"
  by (simp add: plainProps_def defaultProps_def ITEMS_heap_def isCurrent_def renderBreadcrumbWrapper_def
      renderBreadcrumb_def breadcrumbOf_def getProp_def jsx_def)

section \<open>The overflow menu\<close>

text \<open>
  Claim C2. For every overflowed subsequence passed to \<^verbatim>\<open>renderOverflow\<close>, the menu entries
  are built from the reversal of that subsequence when \<^verbatim>\<open>collapseFrom\<close> is \<open>START\<close>, and in
  the order given when it is \<open>END\<close>. In particular, for the items \<^verbatim>\<open>[1, 2, 3]\<close> with room
  for one visible item, the texts of the overflow menu are \<^verbatim>\<open>[2, 1]\<close> under \<open>START\<close> (the
  default) and \<^verbatim>\<open>[2, 3]\<close> under \<open>END\<close>, whatever the table of dropped prop names. The
  \<^verbatim>\<open>popoverProps\<close> are of their declared type, which omits \<^verbatim>\<open>content\<close>.
\<close>

theorem overflow_menu_order:
  assumes "popoverPropsTyped this"
  shows "(collapseFrom this = Some START \<longrightarrow>
            menuEntries (renderOverflow h tbl this its) =
              mapIndexed (renderOverflowBreadcrumb h tbl) (rev its))
         \<and> (collapseFrom this = Some END \<longrightarrow>
            menuEntries (renderOverflow h tbl this its) =
              mapIndexed (renderOverflowBreadcrumb h tbl) its)
         \<and> overflowMenuTexts (renderPass ITEMS_heap tbl plainProps 1) =
             [VStr ''2'', VStr ''1'']
         \<and> overflowMenuTexts (renderPass ITEMS_heap tbl
               (plainProps\<lparr>collapseFrom := Some END\<rparr>) 1) =
             [VStr ''2'', VStr ''3'']"
proof -
  have typed: "popoverPropsTyped plainProps"
    "popoverPropsTyped (plainProps\<lparr>collapseFrom := Some END\<rparr>)"
    by (simp_all add: popoverPropsTyped_def plainProps_def defaultProps_def)
  have cf: "collapseFrom plainProps = Some START"
    "collapseFrom (plainProps\<lparr>collapseFrom := Some END\<rparr>) = Some END"
    "items plainProps = ITEMS"
    "items (plainProps\<lparr>collapseFrom := Some END\<rparr>) = ITEMS"
    by (simp_all add: plainProps_def defaultProps_def)
  have texts: "map entryText (mapIndexed (renderOverflowBreadcrumb ITEMS_heap tbl) xs) =
      map (\<lambda>p. getProp (ITEMS_heap p) ''text'') xs" for xs
    by (rule map_mapIndexed_const) (rule entryText_entry)
  have "overflowMenuTexts (renderPass ITEMS_heap tbl plainProps 1) =
      [VStr ''2'', VStr ''1'']"
    by (simp add: overflowMenuTexts_def renderPass_sel passed_plain partitionItems_ITEMS cf
        menuEntries_renderOverflow [OF typed(1)] texts ITEMS_heap_def getProp_def)
  moreover have "overflowMenuTexts (renderPass ITEMS_heap tbl
      (plainProps\<lparr>collapseFrom := Some END\<rparr>) 1) = [VStr ''2'', VStr ''3'']"
    by (simp add: overflowMenuTexts_def renderPass_sel passed_plain partitionItems_ITEMS cf
        menuEntries_renderOverflow [OF typed(2)] texts ITEMS_heap_def getProp_def)
  ultimately show ?thesis
    using assms by (simp add: menuEntries_renderOverflow)
qed

text \<open>The two menus of the test suite, from the overflowed subsequences \<^verbatim>\<open>[1, 2]\<close> and
  \<^verbatim>\<open>[2, 3]\<close>.\<close>

theorem overflow_menu_order_witness:
  "popoverPropsTyped plainProps
   \<and> collapseFrom plainProps = Some START
   \<and> map entryText (menuEntries (renderOverflow ITEMS_heap sampleInvalidProps
         plainProps [0, 1])) = [VStr ''2'', VStr ''1'']
   \<and> popoverPropsTyped (plainProps\<lparr>collapseFrom := Some END\<rparr>)
   \<and> collapseFrom (plainProps\<lparr>collapseFrom := Some END\<rparr>) = Some END
   \<and> map entryText (menuEntries (renderOverflow ITEMS_heap sampleInvalidProps
         (plainProps\<lparr>collapseFrom := Some END\<rparr>) [1, 2])) = [VStr ''2'', VStr ''3'']"
  using overflow_menu_order [of plainProps ITEMS_heap sampleInvalidProps "[0, 1]"]
    overflow_menu_order [of "plainProps\<lparr>collapseFrom := Some END\<rparr>" ITEMS_heap
      sampleInvalidProps "[1, 2]"]
  by (simp add: popoverPropsTyped_def plainProps_def defaultProps_def mapIndexed_def
      entryText_entry ITEMS_heap_def getProp_def)

section \<open>The current breadcrumb and the renderers of the caller\<close>

text \<open>
  Claim C3, as amended. For every non-empty items sequence whose last descriptor object
  occurs nowhere else in the sequence, with a \<^verbatim>\<open>minVisibleItems\<close> of at least
  \<^verbatim>\<open>items.length\<close> reaching the overflow list, all items render through the visible path and
  exactly one of them is marked current, the last: the wrapper computes \<open>isCurrent\<close> false
  for every descriptor but the last and true for the last. With no renderer supplied and
  no \<^verbatim>\<open>current\<close> field on the descriptors themselves, these flags are the \<^verbatim>\<open>current\<close> props
  of the rendered breadcrumbs.
\<close>

theorem last_breadcrumb_current:
  assumes "items this \<noteq> []"
    and "last (items this) \<notin> set (butlast (items this))"
    and "length (items this) \<le> passedMinVisibleItems (eprops (render this))"
  shows "visibleItems (renderPass h tbl this fit) = items this
         \<and> map (isCurrent this) (visibleItems (renderPass h tbl this fit)) =
             replicate (length (items this) - 1) False @ [True]
         \<and> (breadcrumbRenderer this = None \<and> currentBreadcrumbRenderer this = None
              \<and> (\<forall>p \<in> set (items this). map_of (h p) ''current'' = None) \<longrightarrow>
            map (\<lambda>li. getProp (eprops (breadcrumbOf li)) ''current'')
                (visibleEls (renderPass h tbl this fit)) =
              map VBool (replicate (length (items this) - 1) False @ [True]))"
proof -
  have vis: "visibleItems (renderPass h tbl this fit) = items this"
    using assms(3) by (rule all_visible)
  have flags: "map (isCurrent this) (items this) =
      replicate (length (items this) - 1) False @ [True]"
    using assms(1,2) by (rule map_isCurrent_items)
  have "map (\<lambda>li. getProp (eprops (breadcrumbOf li)) ''current'')
          (visibleEls (renderPass h tbl this fit)) =
        map VBool (replicate (length (items this) - 1) False @ [True])"
    if none: "breadcrumbRenderer this = None" "currentBreadcrumbRenderer this = None"
      and own: "\<forall>p \<in> set (items this). map_of (h p) ''current'' = None"
  proof -
    have "map (\<lambda>r. getProp (eprops (breadcrumbOf (snd r))) ''current'')
            (mapIndexed (renderBreadcrumbWrapper h this) (items this)) =
          map (\<lambda>p. case map_of (h p) ''current'' of
                      None \<Rightarrow> VBool (isCurrent this p) | Some v \<Rightarrow> v) (items this)"
      by (rule map_mapIndexed_const) (rule current_of_default [OF none])
    also have "\<dots> = map (\<lambda>p. VBool (isCurrent this p)) (items this)"
      using own by simp
    also have "\<dots> = map VBool (map (isCurrent this) (items this))"
      by simp
    finally show ?thesis
      by (simp add: renderPass_sel(4) vis flags comp_def)
  qed
  with vis flags show ?thesis
    by simp
qed

text \<open>The test "makes the last breadcrumb current": three descriptors, the third current.\<close>

theorem last_breadcrumb_current_witness:
  "items allVisibleProps \<noteq> []
   \<and> last (items allVisibleProps) \<notin> set (butlast (items allVisibleProps))
   \<and> length (items allVisibleProps) \<le> passedMinVisibleItems (eprops (render allVisibleProps))
   \<and> map (isCurrent allVisibleProps)
         (visibleItems (renderPass ITEMS_heap sampleInvalidProps allVisibleProps 0)) =
       [False, False, True]
   \<and> map (\<lambda>li. getProp (eprops (breadcrumbOf li)) ''current'')
         (visibleEls (renderPass ITEMS_heap sampleInvalidProps allVisibleProps 0)) =
       [VBool False, VBool False, VBool True]"
proof -
  have fields: "items allVisibleProps = [0, 1, 2]" "breadcrumbRenderer allVisibleProps = None"
    "currentBreadcrumbRenderer allVisibleProps = None"
    by (simp_all add: allVisibleProps_def plainProps_def defaultProps_def ITEMS_def)
  have hyps: "items allVisibleProps \<noteq> []"
    "last (items allVisibleProps) \<notin> set (butlast (items allVisibleProps))"
    "length (items allVisibleProps) \<le> passedMinVisibleItems (eprops (render allVisibleProps))"
    by (simp_all add: fields)
      (simp add: allVisibleProps_def plainProps_def defaultProps_def ITEMS_def passedMinVisibleItems_def
        getProp_def map_of_render optObj_def optNum_def)
  have own: "breadcrumbRenderer allVisibleProps = None
      \<and> currentBreadcrumbRenderer allVisibleProps = None
      \<and> (\<forall>p \<in> set (items allVisibleProps). map_of (ITEMS_heap p) ''current'' = None)"
    by (simp add: fields ITEMS_heap_def)
  have r: "replicate (length (items allVisibleProps) - 1) False @ [True] = [False, False, True]"
    by (simp add: fields)
  note t = last_breadcrumb_current [OF hyps, of ITEMS_heap sampleInvalidProps 0]
  have flags: "map (isCurrent allVisibleProps)
      (visibleItems (renderPass ITEMS_heap sampleInvalidProps allVisibleProps 0)) =
      [False, False, True]"
    using t [THEN conjunct2, THEN conjunct1] r by (rule trans)
  have "map (\<lambda>li. getProp (eprops (breadcrumbOf li)) ''current'')
      (visibleEls (renderPass ITEMS_heap sampleInvalidProps allVisibleProps 0)) =
      map VBool (replicate (length (items allVisibleProps) - 1) False @ [True])"
    using t [THEN conjunct2, THEN conjunct2] own by (rule mp)
  then have els: "map (\<lambda>li. getProp (eprops (breadcrumbOf li)) ''current'')
      (visibleEls (renderPass ITEMS_heap sampleInvalidProps allVisibleProps 0)) =
      [VBool False, VBool False, VBool True]"
    by (simp only: r) simp
  from hyps flags els show ?thesis
    by (intro conjI)
qed

text \<open>
  Claim C3 as stated fails: the wrapper compares object references, not positions. With
  \<^verbatim>\<open>const a = { text: "1" }\<close> and the items \<^verbatim>\<open>[a, a]\<close>, all visible, both breadcrumbs are
  marked current.
\<close>

theorem last_breadcrumb_current_counterexample:
  "items (allVisibleProps\<lparr>items := [0, 0]\<rparr>) \<noteq> []
   \<and> length (items (allVisibleProps\<lparr>items := [0, 0]\<rparr>))
       \<le> passedMinVisibleItems (eprops (render (allVisibleProps\<lparr>items := [0, 0]\<rparr>)))
   \<and> visibleItems (renderPass ITEMS_heap sampleInvalidProps
         (allVisibleProps\<lparr>items := [0, 0]\<rparr>) 0) = [0, 0]
   \<and> map (isCurrent (allVisibleProps\<lparr>items := [0, 0]\<rparr>))
         (visibleItems (renderPass ITEMS_heap sampleInvalidProps
            (allVisibleProps\<lparr>items := [0, 0]\<rparr>) 0)) = [True, True]
   \<and> map (\<lambda>li. getProp (eprops (breadcrumbOf li)) ''current'')
         (visibleEls (renderPass ITEMS_heap sampleInvalidProps
            (allVisibleProps\<lparr>items := [0, 0]\<rparr>) 0)) = [VBool True, VBool True]"
proof -
  let ?P = "allVisibleProps\<lparr>items := [0, 0]\<rparr>"
  have fields: "items ?P = [0, 0]" "breadcrumbRenderer ?P = None"
    "currentBreadcrumbRenderer ?P = None"
    by (simp_all add: allVisibleProps_def plainProps_def defaultProps_def)
  have mv: "passedMinVisibleItems (eprops (render ?P)) = 3"
    "passedCollapseFrom (eprops (render ?P)) = START"
    by (simp_all add: allVisibleProps_def plainProps_def defaultProps_def ITEMS_def passedMinVisibleItems_def
        passedCollapseFrom_def getProp_def map_of_render optObj_def optNum_def optBoundary_def)
  have vis: "visibleItems (renderPass ITEMS_heap sampleInvalidProps ?P 0) = [0, 0]"
    by (simp add: renderPass_sel(1) mv fields partitionItems_def)
  have cur: "isCurrent ?P 0"
    by (simp add: isCurrent_def fields)
  have els: "map (\<lambda>li. getProp (eprops (breadcrumbOf li)) ''current'')
      (visibleEls (renderPass ITEMS_heap sampleInvalidProps ?P 0)) = [VBool True, VBool True]"
    by (simp add: vis cur renderPass_sel(4) mapIndexed_def renderBreadcrumbWrapper_def
        renderBreadcrumb_def fields breadcrumbOf_def getProp_def jsx_def ITEMS_heap_def)
  show ?thesis
    by (simp add: fields mv vis cur els)
qed

text \<open>
  Claim C4, as amended. When all items render through the visible path, both renderers are
  supplied, and the items sequence is non-empty with its last descriptor object occurring
  nowhere else in it, then \<^verbatim>\<open>currentBreadcrumbRenderer\<close> is invoked exactly once and only with
  the final descriptor, and \<^verbatim>\<open>breadcrumbRenderer\<close> is invoked exactly \<^verbatim>\<open>items.length - 1\<close>
  times, once with each of the other descriptors in order, and never with the final
  descriptor.
\<close>

theorem both_renderers_calls:
  assumes "breadcrumbRenderer this = Some br"
    and "currentBreadcrumbRenderer this = Some cr"
    and "items this \<noteq> []"
    and "last (items this) \<notin> set (butlast (items this))"
    and "visibleItems (renderPass h tbl this fit) = items this"
  shows "calls (renderPass h tbl this fit) =
           map BreadcrumbRendererCall (butlast (items this))
             @ [CurrentBreadcrumbRendererCall (last (items this))]
         \<and> currentBreadcrumbRendererArgs (calls (renderPass h tbl this fit)) = [last (items this)]
         \<and> length (breadcrumbRendererArgs (calls (renderPass h tbl this fit))) =
             length (items this) - 1
         \<and> last (items this) \<notin> set (breadcrumbRendererArgs (calls (renderPass h tbl this fit)))"
proof -
  note vis = assms(5)
  have one: "fst (renderBreadcrumb h this p (isCurrent this p)) =
      (if p = last (items this) then [CurrentBreadcrumbRendererCall p]
       else [BreadcrumbRendererCall p])" for p
    using assms(1-3) by (auto simp add: fst_renderBreadcrumb isCurrent_iff)
  have "calls (renderPass h tbl this fit) =
      concat (map (\<lambda>p. if p = last (items this) then [CurrentBreadcrumbRendererCall p]
                        else [BreadcrumbRendererCall p])
        (butlast (items this) @ [last (items this)]))"
    using assms(3) by (simp add: calls_renderPass vis one)
  also have "\<dots> = concat (map (\<lambda>p. [BreadcrumbRendererCall p]) (butlast (items this)))
      @ [CurrentBreadcrumbRendererCall (last (items this))]"
    using assms(4) by (simp add: map_if_notin)
  finally have log: "calls (renderPass h tbl this fit) =
      map BreadcrumbRendererCall (butlast (items this))
        @ [CurrentBreadcrumbRendererCall (last (items this))]"
    by (simp add: concat_map_singleton)
  show ?thesis
    using assms(4) by (simp add: log args_of_calls)
qed

text \<open>The test with both renderers: the generic one for the first two descriptors, the
  current one for the third.\<close>

theorem both_renderers_calls_witness:
  "breadcrumbRenderer bothRenderersProps = Some sampleRenderer
   \<and> currentBreadcrumbRenderer bothRenderersProps = Some sampleCurrentRenderer
   \<and> items bothRenderersProps \<noteq> []
   \<and> last (items bothRenderersProps) \<notin> set (butlast (items bothRenderersProps))
   \<and> visibleItems (renderPass ITEMS_heap sampleInvalidProps bothRenderersProps 0) =
       items bothRenderersProps
   \<and> calls (renderPass ITEMS_heap sampleInvalidProps bothRenderersProps 0) =
       [BreadcrumbRendererCall 0, BreadcrumbRendererCall 1, CurrentBreadcrumbRendererCall 2]"
proof -
  have fields: "items bothRenderersProps = [0, 1, 2]"
    "breadcrumbRenderer bothRenderersProps = Some sampleRenderer"
    "currentBreadcrumbRenderer bothRenderersProps = Some sampleCurrentRenderer"
    by (simp_all add: bothRenderersProps_def allVisibleProps_def plainProps_def defaultProps_def ITEMS_def)
  have "length (items bothRenderersProps)
      \<le> passedMinVisibleItems (eprops (render bothRenderersProps))"
    by (simp add: bothRenderersProps_def allVisibleProps_def plainProps_def defaultProps_def ITEMS_def
        passedMinVisibleItems_def getProp_def map_of_render optObj_def optNum_def)
  then have vis: "visibleItems (renderPass ITEMS_heap sampleInvalidProps bothRenderersProps 0) =
      items bothRenderersProps"
    by (rule all_visible)
  have hyps: "items bothRenderersProps \<noteq> []"
    "last (items bothRenderersProps) \<notin> set (butlast (items bothRenderersProps))"
    by (simp_all add: fields)
  have "calls (renderPass ITEMS_heap sampleInvalidProps bothRenderersProps 0) =
      map BreadcrumbRendererCall (butlast (items bothRenderersProps))
        @ [CurrentBreadcrumbRendererCall (last (items bothRenderersProps))]"
    using both_renderers_calls [OF fields(2,3) hyps vis]
    by (rule conjunct1)
  then have log: "calls (renderPass ITEMS_heap sampleInvalidProps bothRenderersProps 0) =
      [BreadcrumbRendererCall 0, BreadcrumbRendererCall 1, CurrentBreadcrumbRendererCall 2]"
    by (simp add: fields)
  from fields(2,3) hyps vis log show ?thesis
    by (intro conjI)
qed

text \<open>
  Claim C4 as stated fails on two inputs. With the same object twice, \<^verbatim>\<open>[a, a]\<close>, the current
  renderer is invoked twice and the generic one never, not \<^verbatim>\<open>items.length - 1\<close> times. With
  no items, the current renderer is not invoked at all.
\<close>

theorem both_renderers_calls_counterexample:
  "visibleItems (renderPass ITEMS_heap sampleInvalidProps
      (bothRenderersProps\<lparr>items := [0, 0]\<rparr>) 0) = [0, 0]
   \<and> calls (renderPass ITEMS_heap sampleInvalidProps
         (bothRenderersProps\<lparr>items := [0, 0]\<rparr>) 0) =
       [CurrentBreadcrumbRendererCall 0, CurrentBreadcrumbRendererCall 0]
   \<and> visibleItems (renderPass ITEMS_heap sampleInvalidProps
         (bothRenderersProps\<lparr>items := []\<rparr>) 0) = []
   \<and> calls (renderPass ITEMS_heap sampleInvalidProps
         (bothRenderersProps\<lparr>items := []\<rparr>) 0) = []"
proof -
  let ?P = "bothRenderersProps\<lparr>items := [0, 0]\<rparr>"
  let ?Q = "bothRenderersProps\<lparr>items := []\<rparr>"
  have fields: "items ?P = [0, 0]" "items ?Q = []"
    "currentBreadcrumbRenderer ?P = Some sampleCurrentRenderer"
    by (simp_all add: bothRenderersProps_def)
  have mv: "passedMinVisibleItems (eprops (render ?P)) = 3"
    "passedMinVisibleItems (eprops (render ?Q)) = 3"
    by (simp_all add: bothRenderersProps_def allVisibleProps_def plainProps_def defaultProps_def ITEMS_def
        passedMinVisibleItems_def getProp_def map_of_render optObj_def optNum_def)
  have vis: "visibleItems (renderPass ITEMS_heap sampleInvalidProps ?P 0) = [0, 0]"
    "visibleItems (renderPass ITEMS_heap sampleInvalidProps ?Q 0) = []"
    by (rule all_visible [where this = ?P, unfolded fields], simp add: mv)
      (rule all_visible [where this = ?Q, unfolded fields], simp add: mv)
  have cur: "isCurrent ?P 0"
    by (simp add: isCurrent_def fields)
  show ?thesis
    by (simp add: calls_renderPass vis fields cur fst_renderBreadcrumb)
qed

text \<open>
  Claim C7, as amended. When only \<^verbatim>\<open>breadcrumbRenderer\<close> is supplied and all items render
  through the visible path, \<^verbatim>\<open>breadcrumbRenderer\<close> is invoked exactly \<^verbatim>\<open>items.length\<close> times,
  once with each descriptor of the sequence in order, the final one included; the number
  of invocations with the final descriptor is exactly one when the sequence is non-empty
  and that object occurs nowhere else in it.
\<close>

theorem only_breadcrumbRenderer_calls:
  assumes "breadcrumbRenderer this = Some br"
    and "currentBreadcrumbRenderer this = None"
    and "visibleItems (renderPass h tbl this fit) = items this"
  shows "calls (renderPass h tbl this fit) = map BreadcrumbRendererCall (items this)
         \<and> length (breadcrumbRendererArgs (calls (renderPass h tbl this fit))) =
             length (items this)
         \<and> (items this \<noteq> [] \<and> last (items this) \<notin> set (butlast (items this)) \<longrightarrow>
            count_list (breadcrumbRendererArgs (calls (renderPass h tbl this fit)))
              (last (items this)) = 1)"
proof -
  note vis = assms(3)
  have log: "calls (renderPass h tbl this fit) = map BreadcrumbRendererCall (items this)"
    using assms(1,2) by (simp add: calls_renderPass vis fst_renderBreadcrumb concat_map_singleton)
  have "count_list (items this) (last (items this)) = 1"
    if "items this \<noteq> []" and "last (items this) \<notin> set (butlast (items this))"
  proof -
    have "count_list (butlast (items this) @ [last (items this)]) (last (items this)) = 1"
      using that(2) by simp
    then show ?thesis
      using that(1) by simp
  qed
  then show ?thesis
    by (simp add: log args_of_calls)
qed

text \<open>The test "calls breadcrumbRenderer": three invocations, one with the last descriptor.\<close>

theorem only_breadcrumbRenderer_calls_witness:
  "breadcrumbRenderer onlyRendererProps = Some sampleRenderer
   \<and> currentBreadcrumbRenderer onlyRendererProps = None
   \<and> visibleItems (renderPass ITEMS_heap sampleInvalidProps onlyRendererProps 0) =
       items onlyRendererProps
   \<and> items onlyRendererProps \<noteq> []
   \<and> last (items onlyRendererProps) \<notin> set (butlast (items onlyRendererProps))
   \<and> calls (renderPass ITEMS_heap sampleInvalidProps onlyRendererProps 0) =
       [BreadcrumbRendererCall 0, BreadcrumbRendererCall 1, BreadcrumbRendererCall 2]
   \<and> count_list (breadcrumbRendererArgs
         (calls (renderPass ITEMS_heap sampleInvalidProps onlyRendererProps 0)))
       (last (items onlyRendererProps)) = 1"
proof -
  have fields: "items onlyRendererProps = [0, 1, 2]"
    "breadcrumbRenderer onlyRendererProps = Some sampleRenderer"
    "currentBreadcrumbRenderer onlyRendererProps = None"
    by (simp_all add: onlyRendererProps_def allVisibleProps_def plainProps_def defaultProps_def ITEMS_def)
  have "length (items onlyRendererProps)
      \<le> passedMinVisibleItems (eprops (render onlyRendererProps))"
    by (simp add: onlyRendererProps_def allVisibleProps_def plainProps_def defaultProps_def ITEMS_def
        passedMinVisibleItems_def getProp_def map_of_render optObj_def optNum_def)
  then have vis: "visibleItems (renderPass ITEMS_heap sampleInvalidProps onlyRendererProps 0) =
      items onlyRendererProps"
    by (rule all_visible)
  have hyps: "items onlyRendererProps \<noteq> []"
    "last (items onlyRendererProps) \<notin> set (butlast (items onlyRendererProps))"
    by (simp_all add: fields)
  note t = only_breadcrumbRenderer_calls [OF fields(2,3) vis]
  have log: "calls (renderPass ITEMS_heap sampleInvalidProps onlyRendererProps 0) =
      [BreadcrumbRendererCall 0, BreadcrumbRendererCall 1, BreadcrumbRendererCall 2]"
    using t [THEN conjunct1] by (simp add: fields)
  have "items onlyRendererProps \<noteq> []
      \<and> last (items onlyRendererProps) \<notin> set (butlast (items onlyRendererProps))"
    using hyps by (intro conjI)
  with t [THEN conjunct2, THEN conjunct2]
  have once: "count_list (breadcrumbRendererArgs
      (calls (renderPass ITEMS_heap sampleInvalidProps onlyRendererProps 0)))
      (last (items onlyRendererProps)) = 1"
    by (rule mp)
  from fields(2,3) vis hyps log once show ?thesis
    by (intro conjI)
qed

text \<open>
  Claim C7 as stated fails: with the same object twice, \<^verbatim>\<open>[a, a]\<close>, the renderer is invoked
  \<^verbatim>\<open>items.length\<close> times, and both invocations are with the final descriptor.
\<close>

theorem only_breadcrumbRenderer_calls_counterexample:
  "visibleItems (renderPass ITEMS_heap sampleInvalidProps
      (onlyRendererProps\<lparr>items := [0, 0]\<rparr>) 0) = [0, 0]
   \<and> last (items (onlyRendererProps\<lparr>items := [0, 0]\<rparr>)) = 0
   \<and> calls (renderPass ITEMS_heap sampleInvalidProps
         (onlyRendererProps\<lparr>items := [0, 0]\<rparr>) 0) =
       [BreadcrumbRendererCall 0, BreadcrumbRendererCall 0]
   \<and> count_list (breadcrumbRendererArgs (calls (renderPass ITEMS_heap sampleInvalidProps
         (onlyRendererProps\<lparr>items := [0, 0]\<rparr>) 0))) 0 = 2"
proof -
  let ?P = "onlyRendererProps\<lparr>items := [0, 0]\<rparr>"
  have fields: "items ?P = [0, 0]" "currentBreadcrumbRenderer ?P = None"
    "breadcrumbRenderer ?P = Some sampleRenderer"
    by (simp_all add: onlyRendererProps_def allVisibleProps_def plainProps_def defaultProps_def)
  have mv: "passedMinVisibleItems (eprops (render ?P)) = 3"
    by (simp_all add: onlyRendererProps_def allVisibleProps_def plainProps_def defaultProps_def ITEMS_def
        passedMinVisibleItems_def getProp_def map_of_render optObj_def optNum_def)
  have vis: "visibleItems (renderPass ITEMS_heap sampleInvalidProps ?P 0) = [0, 0]"
    by (rule all_visible [where this = ?P, unfolded fields]) (simp add: mv)
  have log: "calls (renderPass ITEMS_heap sampleInvalidProps ?P 0) =
      [BreadcrumbRendererCall 0, BreadcrumbRendererCall 0]"
    by (simp add: calls_renderPass vis fields fst_renderBreadcrumb)
  show ?thesis
    by (simp add: log vis fields breadcrumbRendererArgs_def map_filter_def)
qed

section \<open>The entries of the overflow menu\<close>

text \<open>
  Claim C5. For every overflow-menu entry built by \<^verbatim>\<open>renderOverflowBreadcrumb\<close>, which is a
  \<^verbatim>\<open>MenuItem2\<close> element, every attribute of the descriptor that is not one of the library's
  own display props (the table \<open>tbl\<close>) is passed through to the element with its value, and
  the label of the descriptor is passed explicitly as \<^verbatim>\<open>text\<close>. The React key, which the
  entry sets itself, is no attribute of a descriptor.
\<close>

theorem overflow_entry_passthrough:
  assumes "map_of (h p) k = Some v" and "k \<notin> set tbl" and "k \<noteq> ''key''"
  shows "etype (renderOverflowBreadcrumb h tbl p index) = ''MenuItem2''
         \<and> map_of (eprops (renderOverflowBreadcrumb h tbl p index)) k = Some v
         \<and> getProp (eprops (renderOverflowBreadcrumb h tbl p index)) ''text'' =
             getProp (h p) ''text''"
proof -
  have "etype (renderOverflowBreadcrumb h tbl p index) = ''MenuItem2''"
    by (simp add: renderOverflowBreadcrumb_def Let_def)
  moreover have "map_of (eprops (renderOverflowBreadcrumb h tbl p index)) k = Some v"
    using assms
    by (auto simp add: map_of_entry map_of_removeNonHTMLProps map_add_def getProp_def)
  moreover have "getProp (eprops (renderOverflowBreadcrumb h tbl p index)) ''text'' =
      getProp (h p) ''text''"
    by (simp add: getProp_def map_of_entry)
  ultimately show ?thesis
    by simp
qed

text \<open>The \<^verbatim>\<open>target\<close> of a descriptor with a click handler reaches its menu entry.\<close>

theorem overflow_entry_passthrough_witness:
  "map_of (ITEMS_heap 4) ''target'' = Some (VStr ''_blank'')
   \<and> ''target'' \<notin> set sampleInvalidProps \<and> ''target'' \<noteq> ''key''
   \<and> map_of (eprops (renderOverflowBreadcrumb ITEMS_heap sampleInvalidProps 4 0)) ''target'' =
       Some (VStr ''_blank'')
   \<and> getProp (eprops (renderOverflowBreadcrumb ITEMS_heap sampleInvalidProps 4 0)) ''text'' =
       VStr ''5''"
  using overflow_entry_passthrough [of ITEMS_heap 4 "''target''" "VStr ''_blank''"
      sampleInvalidProps 0]
  by (simp add: ITEMS_heap_def sampleInvalidProps_def getProp_def)

text \<open>
  Claim C6, as amended. The entry is given \<^verbatim>\<open>disabled = !isClickable\<close> before the props kept
  from the descriptor are spread over it. So for every descriptor with no \<^verbatim>\<open>disabled\<close>
  attribute of its own among the props passed through, the entry is disabled if and only if
  the descriptor has neither a link target (\<^verbatim>\<open>href\<close>) nor a click handler (\<^verbatim>\<open>onClick\<close>); a
  \<^verbatim>\<open>disabled\<close> attribute of the descriptor that is passed through decides by itself.
\<close>

theorem overflow_entry_disabled:
  "getProp (eprops (renderOverflowBreadcrumb h tbl p index)) ''disabled'' =
     (case map_of (removeNonHTMLProps tbl (h p)) ''disabled'' of
        None \<Rightarrow> VBool (\<not> (notNullish (getProp (h p) ''href'')
                          \<or> notNullish (getProp (h p) ''onClick'')))
      | Some v \<Rightarrow> v)"
  by (simp add: getProp_def map_of_entry map_add_def isClickable_def split: option.splits)

text \<open>A plain descriptor gives a disabled entry; one with a link target and one with a click
  handler give enabled entries.\<close>

theorem overflow_entry_disabled_witness:
  "getProp (eprops (renderOverflowBreadcrumb ITEMS_heap sampleInvalidProps 0 0)) ''disabled'' =
     VBool True
   \<and> getProp (eprops (renderOverflowBreadcrumb ITEMS_heap sampleInvalidProps 3 0)) ''disabled'' =
     VBool False
   \<and> getProp (eprops (renderOverflowBreadcrumb ITEMS_heap sampleInvalidProps 4 0)) ''disabled'' =
     VBool False"
  using overflow_entry_disabled [of ITEMS_heap sampleInvalidProps 0 0]
    overflow_entry_disabled [of ITEMS_heap sampleInvalidProps 3 0]
    overflow_entry_disabled [of ITEMS_heap sampleInvalidProps 4 0]
  by (simp add: ITEMS_heap_def sampleInvalidProps_def removeNonHTMLProps_def getProp_def
      notNullish_def)

text \<open>
  Claim C6 as stated fails: the descriptor \<^verbatim>\<open>{ text: "7", href: "/seven", disabled: true }\<close>
  has a link target, and its menu entry is disabled all the same.
\<close>

theorem overflow_entry_disabled_counterexample:
  "getProp (ITEMS_heap 6) ''href'' = VStr ''/seven''
   \<and> getProp (eprops (renderOverflowBreadcrumb ITEMS_heap sampleInvalidProps 6 0)) ''disabled'' =
       VBool True"
  by (simp add: ITEMS_heap_def sampleInvalidProps_def removeNonHTMLProps_def getProp_def
      renderOverflowBreadcrumb_def jsx_def isClickable_def notNullish_def)

text \<open>
  Claim C8. Every descriptor handed to \<^verbatim>\<open>renderOverflow\<close> is rendered by
  \<^verbatim>\<open>renderOverflowBreadcrumb\<close>, and the overflow path knows nothing of the current item: its
  output is the same whatever the two renderers and whatever the items sequence of the
  component, the \<^verbatim>\<open>current\<close> prop of an entry is the one its descriptor carried through
  \<^verbatim>\<open>removeNonHTMLProps\<close> and nothing else, and in a render pass no renderer of the caller is
  invoked with a descriptor that is not among the visible ones, be it the last element of
  the items sequence.
\<close>

theorem overflow_path_no_current:
  assumes "popoverPropsTyped this"
  shows "renderOverflow h tbl
           (this\<lparr>breadcrumbRenderer := br, currentBreadcrumbRenderer := cr, items := xs\<rparr>) its =
         renderOverflow h tbl this its
         \<and> menuEntries (renderOverflow h tbl this its) =
             mapIndexed (renderOverflowBreadcrumb h tbl)
               (if collapseFrom this = Some START then rev its else its)
         \<and> map_of (eprops (renderOverflowBreadcrumb h tbl p index)) ''current'' =
             map_of (removeNonHTMLProps tbl (h p)) ''current''
         \<and> (p \<notin> set (visibleItems (renderPass h tbl this fit)) \<longrightarrow>
              CurrentBreadcrumbRendererCall p \<notin> set (calls (renderPass h tbl this fit))
              \<and> BreadcrumbRendererCall p \<notin> set (calls (renderPass h tbl this fit)))"
proof -
  have "map_of (eprops (renderOverflowBreadcrumb h tbl p index)) ''current'' =
      map_of (removeNonHTMLProps tbl (h p)) ''current''"
    by (simp add: map_of_entry map_add_def split: option.splits)
  moreover have "CurrentBreadcrumbRendererCall p \<notin> set (calls (renderPass h tbl this fit))
      \<and> BreadcrumbRendererCall p \<notin> set (calls (renderPass h tbl this fit))"
    if "p \<notin> set (visibleItems (renderPass h tbl this fit))"
    using that calls_from_visible [of _ h tbl this fit] by blast
  ultimately show ?thesis
    using assms by (simp add: renderOverflow_frame menuEntries_renderOverflow)
qed

text \<open>With no room for any item all three descriptors overflow, the last one too: the
  current renderer is not invoked with it, and its menu entry has no \<^verbatim>\<open>current\<close> prop.\<close>

theorem overflow_path_no_current_witness:
  "popoverPropsTyped (bothRenderersProps\<lparr>minVisibleItems := None\<rparr>)
   \<and> overflowItems (renderPass ITEMS_heap sampleInvalidProps
         (bothRenderersProps\<lparr>minVisibleItems := None\<rparr>) 0) = [0, 1, 2]
   \<and> last (items (bothRenderersProps\<lparr>minVisibleItems := None\<rparr>)) = 2
   \<and> 2 \<notin> set (visibleItems (renderPass ITEMS_heap sampleInvalidProps
         (bothRenderersProps\<lparr>minVisibleItems := None\<rparr>) 0))
   \<and> CurrentBreadcrumbRendererCall 2 \<notin> set (calls (renderPass ITEMS_heap sampleInvalidProps
         (bothRenderersProps\<lparr>minVisibleItems := None\<rparr>) 0))
   \<and> map_of (eprops (renderOverflowBreadcrumb ITEMS_heap sampleInvalidProps 2 0)) ''current'' =
       None"
proof -
  let ?P = "bothRenderersProps\<lparr>minVisibleItems := None\<rparr>"
  have typed: "popoverPropsTyped ?P"
    by (simp add: popoverPropsTyped_def bothRenderersProps_def allVisibleProps_def plainProps_def defaultProps_def)
  have fields: "items ?P = [0, 1, 2]"
    by (simp add: bothRenderersProps_def allVisibleProps_def plainProps_def defaultProps_def ITEMS_def)
  have mv: "passedMinVisibleItems (eprops (render ?P)) = 0"
    "passedCollapseFrom (eprops (render ?P)) = START"
    by (simp_all add: bothRenderersProps_def allVisibleProps_def plainProps_def defaultProps_def
        passedMinVisibleItems_def passedCollapseFrom_def getProp_def map_of_render optObj_def
        optNum_def optBoundary_def)
  have part: "visibleItems (renderPass ITEMS_heap sampleInvalidProps ?P 0) = []"
    "overflowItems (renderPass ITEMS_heap sampleInvalidProps ?P 0) = [0, 1, 2]"
    by (simp_all add: renderPass_sel(1,2) mv fields partitionItems_def)
  have notvis: "2 \<notin> set (visibleItems (renderPass ITEMS_heap sampleInvalidProps ?P 0))"
    by (simp add: part)
  note t = overflow_path_no_current [OF typed, of ITEMS_heap sampleInvalidProps _ _ _ _ 2 0 0]
  have nocall: "CurrentBreadcrumbRendererCall 2
      \<notin> set (calls (renderPass ITEMS_heap sampleInvalidProps ?P 0))"
    using t notvis by blast
  have "map_of (eprops (renderOverflowBreadcrumb ITEMS_heap sampleInvalidProps 2 0)) ''current'' =
      map_of (removeNonHTMLProps sampleInvalidProps (ITEMS_heap 2)) ''current''"
    using t by blast
  then have nocur: "map_of (eprops (renderOverflowBreadcrumb ITEMS_heap sampleInvalidProps 2 0))
      ''current'' = None"
    by (simp add: ITEMS_heap_def removeNonHTMLProps_def sampleInvalidProps_def)
  have lst: "last (items ?P) = 2"
    by (simp add: fields)
  from typed part(2) lst notvis nocall nocur show ?thesis
    by (intro conjI)
qed

text \<open>
  Claim C10. The popover around the overflow menu is disabled exactly when the overflowed
  subsequence is empty: for every list of overflowed descriptors handed to
  \<^verbatim>\<open>renderOverflow\<close>, and every \<^verbatim>\<open>popoverProps\<close> of the declared type (which omits
  \<^verbatim>\<open>disabled\<close>), the \<^verbatim>\<open>disabled\<close> prop of the popover is \<^verbatim>\<open>true\<close> if and only if the list has
  length zero.
\<close>

theorem overflow_popover_disabled:
  assumes "popoverPropsTyped this"
  shows "getProp (eprops (popoverOf (renderOverflow h tbl this its))) ''disabled'' =
           VBool (length its = 0)"
proof -
  have "map_of (optObj (popoverProps this)) ''disabled'' = None"
    using assms by (rule popoverPropsTyped_omitted) (simp add: popoverPropsOmitted_def)
  then show ?thesis
    by (simp add: getProp_def map_of_popover map_add_def)
qed

text \<open>With the \<^verbatim>\<open>popoverProps\<close> of the test suite: enabled over two overflowed descriptors,
  disabled over none.\<close>

theorem overflow_popover_disabled_witness:
  "popoverPropsTyped openPopoverProps
   \<and> getProp (eprops (popoverOf
         (renderOverflow ITEMS_heap sampleInvalidProps openPopoverProps [0, 1])))
       ''disabled'' = VBool False
   \<and> getProp (eprops (popoverOf
         (renderOverflow ITEMS_heap sampleInvalidProps openPopoverProps [])))
       ''disabled'' = VBool True"
  using overflow_popover_disabled [of openPopoverProps ITEMS_heap sampleInvalidProps "[0, 1]"]
    overflow_popover_disabled [of openPopoverProps ITEMS_heap sampleInvalidProps "[]"]
  by (simp add: popoverPropsTyped_def popoverPropsOmitted_def openPopoverProps_def
      plainProps_def defaultProps_def)

section \<open>The props of the overflow list\<close>

text \<open>
  Claim C9, as amended. For every value of \<^verbatim>\<open>overflowListProps\<close>, the \<^verbatim>\<open>items\<close>,
  \<^verbatim>\<open>overflowRenderer\<close> and \<^verbatim>\<open>visibleItemRenderer\<close> that \<^verbatim>\<open>render()\<close> passes to the overflow list
  are the component's own (the items of the caller and the two internal callbacks), and
  every other field of \<^verbatim>\<open>overflowListProps\<close> is forwarded unchanged, except \<^verbatim>\<open>className\<close>:
  the class passed on is \<^verbatim>\<open>classNames(BREADCRUMBS, overflowListProps.className, className)\<close>.
\<close>

theorem overflowList_props:
  "getProp (eprops (render this)) ''items'' = VArray (map VRef (items this))
   \<and> getProp (eprops (render this)) ''overflowRenderer'' = VFun RenderOverflow
   \<and> getProp (eprops (render this)) ''visibleItemRenderer'' = VFun RenderBreadcrumbWrapper
   \<and> getProp (eprops (render this)) ''className'' =
       VStr (classNames [Some BREADCRUMBS,
              asClass (getProp (optObj (overflowListProps this)) ''className''), className this])
   \<and> (overflowListProps this = Some olp \<and> map_of olp k = Some v
        \<and> k \<notin> {''items'', ''overflowRenderer'', ''visibleItemRenderer'', ''className''} \<longrightarrow>
      map_of (eprops (render this)) k = Some v)"
  by (simp add: getProp_def map_of_render optObj_def map_add_def)

text \<open>The test "passes through props to the OverflowList": the \<^verbatim>\<open>tagName\<close> of
  \<^verbatim>\<open>overflowListProps\<close> arrives, next to the items of the caller.\<close>

theorem overflowList_props_witness:
  "overflowListProps passThroughProps =
     Some [(''className'', VStr ''overflow-list-class''), (''tagName'', VStr ''article'')]
   \<and> map_of [(''className'', VStr ''overflow-list-class''), (''tagName'', VStr ''article'')]
       ''tagName'' = Some (VStr ''article'')
   \<and> ''tagName'' \<notin> {''items'', ''overflowRenderer'', ''visibleItemRenderer'', ''className''}
   \<and> map_of (eprops (render passThroughProps)) ''tagName'' = Some (VStr ''article'')
   \<and> getProp (eprops (render passThroughProps)) ''items'' = VArray []"
  using overflowList_props [of passThroughProps
      "[(''className'', VStr ''overflow-list-class''), (''tagName'', VStr ''article'')]"
      "''tagName''" "VStr ''article''"]
  by (simp add: passThroughProps_def)

text \<open>
  Claim C9 as stated fails on the same test: \<^verbatim>\<open>overflowListProps\<close> has the \<^verbatim>\<open>className\<close>
  \<^verbatim>\<open>overflow-list-class\<close>, and the overflow list receives the base class, that class and
  the class of the component joined into one.
\<close>

theorem overflowList_props_counterexample:
  "overflowListProps passThroughProps =
     Some [(''className'', VStr ''overflow-list-class''), (''tagName'', VStr ''article'')]
   \<and> map_of [(''className'', VStr ''overflow-list-class''), (''tagName'', VStr ''article'')]
       ''className'' = Some (VStr ''overflow-list-class'')
   \<and> map_of (eprops (render passThroughProps)) ''className'' =
       Some (VStr (BREADCRUMBS @ '' overflow-list-class breadcrumbs-class''))"
  by (simp add: passThroughProps_def map_of_render optObj_def getProp_def asClass_def
      classNames_def map_filter_def BREADCRUMBS_def)

end
